theory Spec2Isabelle
  imports Main "HOL-Library.Word"
begin

unbundle bit_operations_syntax

section \<open>Bytes, errors and the struct module\<close>

text \<open>
  The image buffer is a Python \<open>bytearray\<close>: a list of bytes. Python integers are
  unbounded, so every integer of the source is an \<open>int\<close>. Every exception the modelled
  code can raise is a value of \<open>error\<close>; a function that may raise returns
  \<open>error + 'a\<close>, with \<open>Inl\<close> for the exception.
\<close>

type_synonym byte = "8 word"

datatype error =
    ValueError string
  | IOError string
  | StructError
  | ZeroDivisionError
  | AttributeError
  | TypeError

text \<open>
  \<open>struct\<close> resolves an offset against the length of the buffer: a negative offset
  counts from the end, and the call raises \<open>struct.error\<close> unless \<open>s_size\<close> bytes
  are available at the resolved offset.
\<close>

definition struct_offset :: "nat \<Rightarrow> int \<Rightarrow> nat \<Rightarrow> nat option" where
  "struct_offset buffer_len offset s_size =
     (let off = (if offset < 0 then offset + int buffer_len else offset)
      in if off < 0 \<or> int buffer_len - off < int s_size then None else Some (nat off))"

text \<open>The format code \<open><L\<close>: an unsigned 32-bit integer, least significant byte first.\<close>

definition pack_L :: "int \<Rightarrow> byte list" where
  "pack_L v = [word_of_int (v mod 256), word_of_int (v div 256 mod 256),
               word_of_int (v div 65536 mod 256), word_of_int (v div 16777216 mod 256)]"

definition unpack_L :: "byte list \<Rightarrow> int" where
  "unpack_L bs = foldr (\<lambda>b acc. uint b + 256 * acc) bs 0"

definition in_L_range :: "int \<Rightarrow> bool" where
  "in_L_range v = (0 \<le> v \<and> v < 4294967296)"

text \<open>\<open>pack_into("<LLLLL", buf, offset, v0, v1, v2, v3, v4)\<close>: 20 bytes written in place.\<close>

definition pack_into_LLLLL ::
  "byte list \<Rightarrow> int \<Rightarrow> int \<times> int \<times> int \<times> int \<times> int \<Rightarrow> error + byte list" where
  "pack_into_LLLLL buf offset vs =
     (case vs of (v0, v1, v2, v3, v4) \<Rightarrow>
        (case struct_offset (length buf) offset 20 of
           None \<Rightarrow> Inl StructError
         | Some off \<Rightarrow>
             if in_L_range v0 \<and> in_L_range v1 \<and> in_L_range v2 \<and> in_L_range v3 \<and> in_L_range v4
             then Inr (take off buf @
                       pack_L v0 @ pack_L v1 @ pack_L v2 @ pack_L v3 @ pack_L v4 @
                       drop (off + 20) buf)
             else Inl StructError))"

text \<open>\<open>unpack_from("<LLLLL", buf, offset)\<close>: five words read from 20 bytes.\<close>

definition unpack_from_LLLLL ::
  "byte list \<Rightarrow> int \<Rightarrow> error + (int \<times> int \<times> int \<times> int \<times> int)" where
  "unpack_from_LLLLL buf offset =
     (case struct_offset (length buf) offset 20 of
        None \<Rightarrow> Inl StructError
      | Some off \<Rightarrow>
          Inr (unpack_L (take 4 (drop off buf)),
               unpack_L (take 4 (drop (off + 4) buf)),
               unpack_L (take 4 (drop (off + 8) buf)),
               unpack_L (take 4 (drop (off + 12) buf)),
               unpack_L (take 4 (drop (off + 16) buf))))"

text \<open>\<open>unpack_from("<16s", buf, offset)\<close>: a 16-byte string.\<close>

definition unpack_from_16s :: "byte list \<Rightarrow> int \<Rightarrow> error + byte list" where
  "unpack_from_16s buf offset =
     (case struct_offset (length buf) offset 16 of
        None \<Rightarrow> Inl StructError
      | Some off \<Rightarrow> Inr (take 16 (drop off buf)))"

text \<open>
  A Python slice \<open>buf[lo:hi]\<close> with step 1: a negative index counts from the end, and
  both indices are clamped to the buffer.
\<close>

definition slice_index :: "nat \<Rightarrow> int \<Rightarrow> nat" where
  "slice_index n i = (if i < 0 then nat (max 0 (i + int n)) else min n (nat i))"

definition py_slice :: "'a list \<Rightarrow> int \<Rightarrow> int \<Rightarrow> 'a list" where
  "py_slice xs lo hi =
     (let l = slice_index (length xs) lo; h = slice_index (length xs) hi
      in take (h - l) (drop l xs))"

section \<open>Constants of ffff\_element.py\<close>

definition FFFF_SENTINEL :: "byte list" where
  "FFFF_SENTINEL = map of_char ''FlashFormatForFW''"

definition FFFF_MAX_HEADER_BLOCK_OFFSET :: int where
  "FFFF_MAX_HEADER_BLOCK_OFFSET = 512 * 1024"

definition FFFF_ELEMENT_STAGE2_FIRMWARE_PACKAGE :: int where
  "FFFF_ELEMENT_STAGE2_FIRMWARE_PACKAGE = 0x01"

definition FFFF_ELEMENT_DATA :: int where
  "FFFF_ELEMENT_DATA = 0x05"

definition FFFF_ELEMENT_END_OF_ELEMENT_TABLE :: int where
  "FFFF_ELEMENT_END_OF_ELEMENT_TABLE = 0xfe"

definition FFFF_ELT_LENGTH :: int where
  "FFFF_ELT_LENGTH = 1 + 3 + 4 + 4 + 4 + 4"

definition FFFF_HEADER_SIZE_MIN :: int where
  "FFFF_HEADER_SIZE_MIN = 512"

definition FFFF_HEADER_SIZE_MAX :: int where
  "FFFF_HEADER_SIZE_MAX = 32768"

definition FFFF_HEADER_SIZE_DEFAULT :: int where
  "FFFF_HEADER_SIZE_DEFAULT = 4096"

definition FFFF_HDR_LEN_TAIL_SENTINEL :: int where
  "FFFF_HDR_LEN_TAIL_SENTINEL = 16"

definition FFFF_HDR_VALID :: int where
  "FFFF_HDR_VALID = 0"

definition FFFF_HDR_ERASED :: int where
  "FFFF_HDR_ERASED = 1"

definition FFFF_HDR_INVALID :: int where
  "FFFF_HDR_INVALID = 2"

definition FFFF_FILE_EXTENSION :: string where
  "FFFF_FILE_EXTENSION = ''.ffff''"

section \<open>FfffElement\<close>

text \<open>
  The fields of the class that the modelled methods read or write. The payload blob
  (\<open>tftf_blob\<close>) is represented by the bytes it was loaded from; its own parsing belongs
  to module \<open>tftf\<close>. The shared buffer handle (\<open>buf\<close>, \<open>buf_size\<close>) is only used by the
  export methods and is not part of the record.
\<close>

record FfffElement =
  filename :: "string option"
  tftf_blob :: "byte list option"
  index :: int
  erase_block_size :: int
  collisions :: "int list"
  duplicates :: "int list"
  in_range :: bool
  aligned :: bool
  valid_type :: bool
  element_type :: int
  element_class :: int
  element_id :: int
  element_length :: int
  element_location :: int
  element_generation :: int

text \<open>The constructor \<open>FfffElement.__init__\<close>.\<close>

definition FfffElement_init ::
  "int \<Rightarrow> int \<Rightarrow> int \<Rightarrow> int \<Rightarrow> int \<Rightarrow> int \<Rightarrow> int \<Rightarrow> int \<Rightarrow> string option \<Rightarrow> FfffElement" where
  "FfffElement_init idx ebs etype eclass eid elength elocation egeneration fname =
     (let eot = (etype = FFFF_ELEMENT_END_OF_ELEMENT_TABLE) in
      \<lparr> filename = fname, tftf_blob = None, index = idx, erase_block_size = ebs,
        collisions = [], duplicates = [],
        in_range = eot, aligned = eot, valid_type = eot,
        element_type = etype, element_class = eclass, element_id = eid,
        element_length = elength, element_location = elocation,
        element_generation = egeneration \<rparr>)"

text \<open>
  \<open>FfffElement.unpack\<close>: returns the end-of-table flag and the updated element, or the
  \<open>struct.error\<close> of \<open>unpack_from\<close>.
\<close>

definition unpack :: "FfffElement \<Rightarrow> byte list \<Rightarrow> int \<Rightarrow> error + (bool \<times> FfffElement)" where
  "unpack self buf offset =
     (case unpack_from_LLLLL buf offset of
        Inl e \<Rightarrow> Inl e
      | Inr (type_class_w, w1, w2, w3, w4) \<Rightarrow>
          let self1 = self\<lparr> element_type := type_class_w AND 0x000000ff,
                            element_class := (drop_bit 8 type_class_w) AND 0x00ffffff,
                            element_id := w1,
                            element_length := w2,
                            element_location := w3,
                            element_generation := w4 \<rparr>
          in if element_type self1 \<noteq> FFFF_ELEMENT_END_OF_ELEMENT_TABLE
             then let span_start = element_location self1;
                      span_end = span_start + element_length self1
                  in Inr (False, self1\<lparr> tftf_blob := Some (py_slice buf span_start span_end) \<rparr>)
             else Inr (True, self1\<lparr> in_range := True, aligned := True, valid_type := True \<rparr>))"

text \<open>
  \<open>FfffElement.pack\<close>: returns the updated buffer and the offset of the next element, or
  the \<open>struct.error\<close> of \<open>pack_into\<close>.
\<close>

definition pack :: "FfffElement \<Rightarrow> byte list \<Rightarrow> int \<Rightarrow> error + (byte list \<times> int)" where
  "pack self buf offset =
     (let type_class_w = (push_bit 8 (element_class self)) OR element_type self
      in case pack_into_LLLLL buf offset
                (type_class_w, element_id self, element_length self,
                 element_location self, element_generation self) of
           Inl e \<Rightarrow> Inl e
         | Inr buf' \<Rightarrow> Inr (buf', offset + FFFF_ELT_LENGTH))"

text \<open>
  Modelled from the spec: \<open>util.block_aligned\<close> is not among the sources; the spec's
  check (b) reads "\<open>location\<close> is a multiple of \<open>erase_block_size\<close>".
\<close>

definition block_aligned :: "int \<Rightarrow> int \<Rightarrow> bool" where
  "block_aligned location block_size = (block_size dvd location)"

text \<open>
  \<open>util.error\<close> prints a diagnostic. The model collects the diagnostics of a call, each
  carrying the numbers that the message formats.
\<close>

datatype diagnostic =
    Outside_address_range int int int
  | Unaligned_to_block_size int int

text \<open>\<open>FfffElement.validate\<close>: the result, the updated element and the diagnostics.\<close>

definition validate ::
  "FfffElement \<Rightarrow> int \<Rightarrow> int \<Rightarrow> bool \<times> FfffElement \<times> diagnostic list" where
  "validate self address_range_low address_range_high =
     (if element_type self = FFFF_ELEMENT_END_OF_ELEMENT_TABLE
      then (True, self\<lparr> in_range := True, aligned := True, valid_type := True \<rparr>, [])
      else
        let self1 = self\<lparr> in_range := (element_location self \<ge> address_range_low \<and>
                                          element_location self < address_range_high) \<rparr>;
            out1 = (if \<not> in_range self1
                    then [Outside_address_range (element_location self1)
                            address_range_low address_range_high]
                    else []);
            self2 = self1\<lparr> aligned := block_aligned (element_location self1)
                                                      (erase_block_size self1) \<rparr>;
            out2 = (if \<not> aligned self2
                    then out1 @ [Unaligned_to_block_size (element_location self2)
                                   (erase_block_size self2)]
                    else out1);
            self3 = self2\<lparr> valid_type := (element_type self2 \<ge> FFFF_ELEMENT_STAGE2_FIRMWARE_PACKAGE \<and>
                                            element_type self2 \<le> FFFF_ELEMENT_DATA) \<rparr>
        in (in_range self3 \<and> aligned self3 \<and> valid_type self3, self3, out2))"

text \<open>\<open>FfffElement.validate_against\<close>: the updated element \<open>self\<close>.\<close>

definition validate_against :: "FfffElement \<Rightarrow> FfffElement \<Rightarrow> FfffElement" where
  "validate_against self other =
     (let start_a = element_location self;
          end_a = start_a + element_length self - 1;
          start_b = element_location other;
          end_b = start_b + element_length other - 1;
          self1 = (if end_b \<ge> start_a \<and> start_b \<le> end_a
                   then self\<lparr> collisions := collisions self @ [index other] \<rparr>
                   else self);
          self2 = (if element_type self1 = element_type other \<and>
                      element_id self1 = element_id other \<and>
                      element_generation self1 = element_generation other
                   then self1\<lparr> duplicates := duplicates self1 @ [index other] \<rparr>
                   else self1)
      in self2)"

text \<open>The closed byte span \<open>[location, location + length - 1]\<close> of an element.\<close>

definition byte_span :: "FfffElement \<Rightarrow> int set" where
  "byte_span e = {element_location e .. element_location e + element_length e - 1}"

(*DEFS_END*)

section \<open>Element validation\<close>

text \<open>
  Claim C4. For an element whose type is not the end-of-table marker, \<open>validate\<close>
  returns the conjunction of three checks, each stored in its own flag whatever the
  other two are: \<open>in_range\<close> (low \<le> location < high), \<open>aligned\<close> (location is a
  multiple of the erase block size) and \<open>valid_type\<close> (1 \<le> type \<le> 5). A failing
  range or alignment check adds its diagnostic; types 6..0xfd make \<open>valid_type\<close> false.
\<close>

theorem validate_checks:
  assumes "element_type e \<noteq> FFFF_ELEMENT_END_OF_ELEMENT_TABLE"
  shows "validate e lo hi =
           (lo \<le> element_location e \<and> element_location e < hi \<and>
              erase_block_size e dvd element_location e \<and>
              1 \<le> element_type e \<and> element_type e \<le> 5,
            e\<lparr> in_range := (lo \<le> element_location e \<and> element_location e < hi),
               aligned := (erase_block_size e dvd element_location e),
               valid_type := (1 \<le> element_type e \<and> element_type e \<le> 5) \<rparr>,
            (if lo \<le> element_location e \<and> element_location e < hi then []
             else [Outside_address_range (element_location e) lo hi]) @
            (if erase_block_size e dvd element_location e then []
             else [Unaligned_to_block_size (element_location e) (erase_block_size e)]))
         \<and> (6 \<le> element_type e \<and> element_type e \<le> 0xfd \<longrightarrow>
              \<not> valid_type (fst (snd (validate e lo hi))))"
  using assms
  by (simp add: validate_def Let_def block_aligned_def
      FFFF_ELEMENT_STAGE2_FIRMWARE_PACKAGE_def FFFF_ELEMENT_DATA_def)

text \<open>
  Two runs of C4: a reserved type 6 at an aligned, in-range location fails on the type
  alone; a legal type at location 4097 fails both other checks, and both are reported.
\<close>

theorem validate_checks_witness:
  "validate (FfffElement_init 2 4096 6 0 1 16 8192 0 None) 8192 65536 =
     (False,
      (FfffElement_init 2 4096 6 0 1 16 8192 0 None)
        \<lparr> in_range := True, aligned := True, valid_type := False \<rparr>, [])
   \<and> validate (FfffElement_init 2 4096 1 0 1 16 4097 0 None) 8192 65536 =
     (False,
      (FfffElement_init 2 4096 1 0 1 16 4097 0 None)
        \<lparr> in_range := False, aligned := False, valid_type := True \<rparr>,
      [Outside_address_range 4097 8192 65536, Unaligned_to_block_size 4097 4096])"
  using validate_checks [of "FfffElement_init 2 4096 6 0 1 16 8192 0 None" 8192 65536]
    validate_checks [of "FfffElement_init 2 4096 1 0 1 16 4097 0 None" 8192 65536]
  by (simp add: FfffElement_init_def Let_def FFFF_ELEMENT_END_OF_ELEMENT_TABLE_def)

text \<open>
  Claim C5. For an element whose type is the end-of-table marker 0xfe, \<open>validate\<close>
  returns true and sets \<open>in_range\<close>, \<open>aligned\<close> and \<open>valid_type\<close> to true, whatever
  the other fields and the range arguments are.
\<close>

theorem validate_end_of_table:
  assumes "element_type e = FFFF_ELEMENT_END_OF_ELEMENT_TABLE"
  shows "validate e lo hi =
           (True, e\<lparr> in_range := True, aligned := True, valid_type := True \<rparr>, [])"
  using assms by (simp add: validate_def)

text \<open>An end-of-table element at location 0xFFFFFFFF validates.\<close>

theorem validate_end_of_table_witness:
  "validate (FfffElement_init 3 4096 0xfe 0 0 0 0xFFFFFFFF 0 None) 8192 65536 =
     (True, FfffElement_init 3 4096 0xfe 0 0 0 0xFFFFFFFF 0 None, [])"
  using validate_end_of_table [of "FfffElement_init 3 4096 0xfe 0 0 0 0xFFFFFFFF 0 None" 8192 65536]
  by (simp add: FfffElement_init_def Let_def FFFF_ELEMENT_END_OF_ELEMENT_TABLE_def)

text \<open>
  Claim C6 as stated fails: an element of length 0 at location 10 has the empty closed
  span [10, 9], which intersects nothing, yet against an element covering [5, 14] the
  endpoint comparison of \<open>validate_against\<close> records a collision.
\<close>

theorem collision_span_counterexample:
  "\<not> ((collisions (validate_against (FfffElement_init 0 1 1 0 1 0 10 0 None)
                                      (FfffElement_init 1 1 2 0 2 10 5 0 None))
          = collisions (FfffElement_init 0 1 1 0 1 0 10 0 None) @ [1])
       \<longleftrightarrow> byte_span (FfffElement_init 0 1 1 0 1 0 10 0 None) \<inter>
             byte_span (FfffElement_init 1 1 2 0 2 10 5 0 None) \<noteq> {})"
  by (simp add: validate_against_def FfffElement_init_def byte_span_def Let_def)

text \<open>
  Claim C6, amended. \<open>validate_against\<close> appends the other element's index to the
  collision list exactly when end_b \<ge> start_a and start_b \<le> end_a, where
  end = location + length - 1; when both lengths are at least 1 this is exactly when the
  closed byte spans intersect.
\<close>

theorem validate_against_collision:
  "collisions (validate_against a b) =
     (if element_location b + element_length b - 1 \<ge> element_location a \<and>
         element_location b \<le> element_location a + element_length a - 1
      then collisions a @ [index b] else collisions a)
   \<and> (1 \<le> element_length a \<and> 1 \<le> element_length b \<longrightarrow>
        (collisions (validate_against a b) = collisions a @ [index b]
           \<longleftrightarrow> byte_span a \<inter> byte_span b \<noteq> {}))"
proof -
  have 1: "collisions (validate_against a b) =
     (if element_location b + element_length b - 1 \<ge> element_location a \<and>
         element_location b \<le> element_location a + element_length a - 1
      then collisions a @ [index b] else collisions a)"
    by (simp add: validate_against_def Let_def)
  have 2: "byte_span a \<inter> byte_span b \<noteq> {} \<longleftrightarrow>
       element_location b + element_length b - 1 \<ge> element_location a \<and>
       element_location b \<le> element_location a + element_length a - 1"
    if "1 \<le> element_length a" "1 \<le> element_length b"
  proof -
    have "byte_span a \<inter> byte_span b =
       {max (element_location a) (element_location b) ..
        min (element_location a + element_length a - 1)
            (element_location b + element_length b - 1)}"
      by (auto simp: byte_span_def)
    then show ?thesis using that by auto
  qed
  show ?thesis using 1 2 by auto
qed

text \<open>
  Spans [10,20) and [15,25) collide, in both directions; the abutting spans [10,20) and
  [20,30) do not.
\<close>

theorem validate_against_collision_witness:
  "collisions (validate_against (FfffElement_init 0 1 1 0 1 10 10 0 None)
                                (FfffElement_init 1 1 2 0 2 10 15 0 None)) = [1]
   \<and> byte_span (FfffElement_init 0 1 1 0 1 10 10 0 None) \<inter>
     byte_span (FfffElement_init 1 1 2 0 2 10 15 0 None) \<noteq> {}
   \<and> collisions (validate_against (FfffElement_init 1 1 2 0 2 10 15 0 None)
                                  (FfffElement_init 0 1 1 0 1 10 10 0 None)) = [0]
   \<and> collisions (validate_against (FfffElement_init 0 1 1 0 1 10 10 0 None)
                                  (FfffElement_init 1 1 2 0 2 10 20 0 None)) = []
   \<and> byte_span (FfffElement_init 0 1 1 0 1 10 10 0 None) \<inter>
     byte_span (FfffElement_init 1 1 2 0 2 10 20 0 None) = {}"
  using validate_against_collision [of "FfffElement_init 0 1 1 0 1 10 10 0 None"
                                       "FfffElement_init 1 1 2 0 2 10 15 0 None"]
    validate_against_collision [of "FfffElement_init 1 1 2 0 2 10 15 0 None"
                                   "FfffElement_init 0 1 1 0 1 10 10 0 None"]
    validate_against_collision [of "FfffElement_init 0 1 1 0 1 10 10 0 None"
                                   "FfffElement_init 1 1 2 0 2 10 20 0 None"]
  by (simp add: FfffElement_init_def Let_def byte_span_def)

text \<open>
  Claim C7. \<open>validate_against\<close> appends the other element's index to the duplicate list
  if and only if type, id and generation are all equal; locations, lengths and overlap
  play no part.
\<close>

theorem validate_against_duplicate:
  "duplicates (validate_against a b) =
     (if element_type a = element_type b \<and> element_id a = element_id b \<and>
         element_generation a = element_generation b
      then duplicates a @ [index b] else duplicates a)
   \<and> ((duplicates (validate_against a b) = duplicates a @ [index b]) \<longleftrightarrow>
        (element_type a = element_type b \<and> element_id a = element_id b \<and>
         element_generation a = element_generation b))"
  by (simp add: validate_against_def Let_def)

text \<open>
  Equal (type, id, generation) at different locations and lengths is a duplicate; the
  same location with another generation is not.
\<close>

theorem validate_against_duplicate_witness:
  "duplicates (validate_against (FfffElement_init 0 1 1 0 7 10 10 3 None)
                                (FfffElement_init 1 1 1 5 7 99 4096 3 None)) = [1]
   \<and> duplicates (validate_against (FfffElement_init 0 1 1 0 7 10 10 3 None)
                                  (FfffElement_init 1 1 1 0 7 10 10 4 None)) = []"
  using validate_against_duplicate [of "FfffElement_init 0 1 1 0 7 10 10 3 None"
                                       "FfffElement_init 1 1 1 5 7 99 4096 3 None"]
    validate_against_duplicate [of "FfffElement_init 0 1 1 0 7 10 10 3 None"
                                   "FfffElement_init 1 1 1 0 7 10 10 4 None"]
  by (simp add: FfffElement_init_def Let_def byte_span_def)

text \<open>
  Claim C10. Two elements that both have length 0 never record a collision, whatever
  their locations are.
\<close>

theorem zero_length_never_collides:
  assumes "element_length a = 0" and "element_length b = 0"
  shows "collisions (validate_against a b) = collisions a"
  using assms by (simp add: validate_against_def Let_def)

text \<open>Two empty elements at the same location 4096 do not collide.\<close>

theorem zero_length_never_collides_witness:
  "element_length (FfffElement_init 0 1 1 0 1 0 4096 0 None) = 0
   \<and> element_length (FfffElement_init 1 1 2 0 2 0 4096 0 None) = 0
   \<and> collisions (validate_against (FfffElement_init 0 1 1 0 1 0 4096 0 None)
                                  (FfffElement_init 1 1 2 0 2 0 4096 0 None)) = []"
  using zero_length_never_collides [of "FfffElement_init 0 1 1 0 1 0 4096 0 None"
                                       "FfffElement_init 1 1 2 0 2 0 4096 0 None"]
  by (simp add: FfffElement_init_def Let_def byte_span_def)

(*THMS_END*)

end
